theory Spec2Isabelle
  imports Main "HOL-Library.Word" "HOL-Library.Multiset"
begin

section \<open>JavaScript strings\<close>

text \<open>
  A JavaScript string is a sequence of 16-bit code units. The executor only uses
  \<^verbatim>\<open>split('\n')\<close>, \<^verbatim>\<open>trim()\<close>, \<^verbatim>\<open>join('\n')\<close>, \<^verbatim>\<open>includes(..)\<close>, concatenation and
  truthiness of strings, all of which act on code units (every white space character
  of ECMAScript lies in the basic plane).
\<close>

type_synonym jschar = "16 word"
type_synonym jsstring = "jschar list"

definition js :: "string \<Rightarrow> jsstring" where
  "js s = map of_char s"

definition nl :: jschar where
  "nl = 0x0A"

definition sp :: jschar where
  "sp = 0x20"

text \<open>
  The characters \<^verbatim>\<open>String.prototype.trim\<close> removes: ECMAScript WhiteSpace (TAB, VT, FF,
  SP, NBSP, ZWNBSP and the Unicode space separators) and LineTerminator (LF, CR, LS, PS).
\<close>

definition is_ws :: "jschar \<Rightarrow> bool" where
  "is_ws c = (c \<in> {0x09, 0x0A, 0x0B, 0x0C, 0x0D, 0x20, 0xA0, 0x1680,
      0x2000, 0x2001, 0x2002, 0x2003, 0x2004, 0x2005, 0x2006, 0x2007, 0x2008, 0x2009,
      0x200A, 0x2028, 0x2029, 0x202F, 0x205F, 0x3000, 0xFEFF})"

definition trim_start :: "jsstring \<Rightarrow> jsstring" where
  "trim_start s = dropWhile is_ws s"

definition trim_end :: "jsstring \<Rightarrow> jsstring" where
  "trim_end s = rev (dropWhile is_ws (rev s))"

definition trim :: "jsstring \<Rightarrow> jsstring" where
  "trim s = trim_end (trim_start s)"

text \<open>\<^verbatim>\<open>s.split('\n')\<close>: the empty string gives one empty line.\<close>

fun split_nl :: "jsstring \<Rightarrow> jsstring list" where
  "split_nl [] = [[]]"
| "split_nl (c # cs) =
     (if c = nl then [] # split_nl cs
      else (c # hd (split_nl cs)) # tl (split_nl cs))"

text \<open>\<^verbatim>\<open>lines.join('\n')\<close>\<close>

fun join_nl :: "jsstring list \<Rightarrow> jsstring" where
  "join_nl [] = []"
| "join_nl [l] = l"
| "join_nl (l # ls) = l @ nl # join_nl ls"

text \<open>\<^verbatim>\<open>s.includes(t)\<close>: \<open>t\<close> occurs in \<open>s\<close> as a contiguous run.\<close>

fun str_includes :: "jsstring \<Rightarrow> jsstring \<Rightarrow> bool" where
  "str_includes [] t = (t = [])"
| "str_includes (c # s) t =
     (if take (length t) (c # s) = t then True else str_includes s t)"

text \<open>Truthiness of a string: every string but the empty one.\<close>

definition truthy :: "jsstring \<Rightarrow> bool" where
  "truthy s = (s \<noteq> [])"

text \<open>\<^verbatim>\<open>a || b\<close> on strings.\<close>

definition str_or :: "jsstring \<Rightarrow> jsstring \<Rightarrow> jsstring" where
  "str_or a b = (if truthy a then a else b)"

section \<open>Output normalization\<close>

text \<open>
  \<^verbatim>\<open>
  normalizeOutput(output) {
    return output.split('\n').map(line => line.trim())
      .filter(line => line.length > 0).join('\n').trim();
  }
  \<close>
\<close>

definition normalizeOutput :: "jsstring \<Rightarrow> jsstring" where
  "normalizeOutput output =
     trim (join_nl (filter (\<lambda>line. length line > 0) (map (\<lambda>line. trim line) (split_nl output))))"

text \<open>
  The reference transform in the specification's words: split into lines, trim trailing
  white space from each line (leading white space stays), drop the blank lines, rejoin.
\<close>

definition normalize_spec :: "jsstring \<Rightarrow> jsstring" where
  "normalize_spec s = join_nl (filter (\<lambda>line. line \<noteq> []) (map trim_end (split_nl s)))"

text \<open>
  A line is clean when it is not empty and neither starts nor ends with white space:
  the shape of every line that survives the \<^verbatim>\<open>map\<close> and the \<^verbatim>\<open>filter\<close>.
\<close>

definition clean :: "jsstring \<Rightarrow> bool" where
  "clean s = (s \<noteq> [] \<and> \<not> is_ws (hd s) \<and> \<not> is_ws (last s))"

section \<open>The host: file system, child processes\<close>

text \<open>
  Submission statuses (the \<^verbatim>\<open>status\<close> enumeration of the Submission schema).
\<close>

datatype status =
  Pending | Compiling | Running | Accepted | WrongAnswer | TimeLimitExceeded
  | MemoryLimitExceeded | RuntimeError | CompilationError | PartialCorrect

text \<open>
  The error object a rejected \<^verbatim>\<open>execAsync\<close> (or a failing \<^verbatim>\<open>fs\<close> call) throws. The
  executor reads \<^verbatim>\<open>message\<close>, \<^verbatim>\<open>signal\<close>, \<^verbatim>\<open>code\<close> and \<^verbatim>\<open>stderr\<close>. \<open>err_code\<close> is the
  numeric exit code; \<open>None\<close> stands for an absent code and for the string codes of
  \<^verbatim>\<open>fs\<close> errors (\<^verbatim>\<open>'ENOENT'\<close>), none of which is \<^verbatim>\<open>=== 134\<close>.
\<close>

record js_error =
  err_message :: jsstring
  err_signal :: "jsstring option"
  err_code :: "int option"
  err_stderr :: "jsstring option"

text \<open>
  What \<^verbatim>\<open>await execAsync(command, opts)\<close> does: it resolves with the captured standard
  output and standard error (the third field is the wall-clock time \<^verbatim>\<open>Date.now()\<close>
  measures around the call, in milliseconds), or it rejects.
\<close>

datatype exec_outcome =
  Resolved jsstring jsstring int
  | Rejected js_error

text \<open>
  What the host does for one test case: whether writing the input file throws, how the
  shell command ends, and the contents of the output and error files afterwards
  (\<open>None\<close>: the file does not exist, so \<^verbatim>\<open>fs.readFile\<close> throws).
\<close>

record case_run =
  write_input_error :: bool
  run_outcome :: exec_outcome
  output_file :: "jsstring option"
  error_file :: "jsstring option"

text \<open>
  The host's behaviour during one call of \<^verbatim>\<open>execute\<close>, as an oracle the executor
  consults: the identifier \<^verbatim>\<open>uuidv4()\<close> returns, the executor's \<^verbatim>\<open>tempDir\<close>, the message
  of the error \<^verbatim>\<open>fs.ensureDir(workDir)\<close> or \<^verbatim>\<open>fs.writeFile(sourceFile, code)\<close> throws (if
  any), the outcome of the compile command, the behaviour of each test case (by index
  and input), and whether the final \<^verbatim>\<open>fs.remove(workDir)\<close> throws.
\<close>

record world =
  uuidv4 :: jsstring
  tempDir :: jsstring
  ensureDir_error :: "jsstring option"
  writeSource_error :: "jsstring option"
  compile_exec :: "jsstring \<Rightarrow> exec_outcome"
  case_exec :: "nat \<Rightarrow> jsstring \<Rightarrow> case_run"
  remove_error :: bool

text \<open>
  The observable host state: which working directories of runs exist, and the child
  processes spawned so far, in order. Only what the executor itself creates and removes
  is followed: the directories \<^verbatim>\<open>fs.ensureDir\<close> may create above a working directory, and
  whatever the child processes do to the file system, are not tracked, nor are the
  files inside a working directory (removing the directory removes them).
\<close>

datatype spawn =
  CompileCmd jsstring
  | RunCase nat jsstring

record host =
  dirs :: "jsstring set"
  spawned :: "spawn list"

definition path_join :: "jsstring \<Rightarrow> jsstring \<Rightarrow> jsstring" where
  "path_join dir name = dir @ js ''/'' @ name"

text \<open>The error of a failing \<^verbatim>\<open>fs\<close> call: no signal, no numeric code, no \<^verbatim>\<open>stderr\<close>.\<close>

definition fs_error :: js_error where
  "fs_error = \<lparr>err_message = js ''EIO'', err_signal = None, err_code = None, err_stderr = None\<rparr>"

text \<open>\<^verbatim>\<open>n || d\<close> on an optional number: \<^verbatim>\<open>null\<close>, \<^verbatim>\<open>undefined\<close> and \<^verbatim>\<open>0\<close> are falsy.\<close>

definition num_or :: "int option \<Rightarrow> int \<Rightarrow> int" where
  "num_or n d = (case n of None \<Rightarrow> d | Some v \<Rightarrow> if v = 0 then d else v)"

section \<open>The code executor\<close>

text \<open>
  A test case of a problem (\<^verbatim>\<open>testCaseSchema\<close>): \<^verbatim>\<open>_id\<close>, \<^verbatim>\<open>input\<close>, \<^verbatim>\<open>output\<close> (the expected
  output) and \<^verbatim>\<open>points\<close>. Point values are modelled as integers, and sums of them are
  exact; the rounding of JavaScript numbers beyond 2^53 is not modelled, so nothing
  below is claimed about how the score totals depend on the order of addition.
\<close>

record test_case =
  tc_id :: "jsstring option"
  tc_input :: jsstring
  tc_output :: jsstring
  tc_points :: "int option"

text \<open>The object \<^verbatim>\<open>prepareFiles\<close> returns.\<close>

record prepared =
  sourceFile :: jsstring
  executableFile :: jsstring
  compileCommand :: "jsstring option"
  runCommand :: jsstring

text \<open>
  \<^verbatim>\<open>prepareFiles(workDir, code, language)\<close>: a \<^verbatim>\<open>switch\<close> on the language tag. \<open>Inl\<close> carries
  the message of the error thrown (by \<^verbatim>\<open>fs.writeFile\<close>, or for an unsupported language).
\<close>

definition write_source :: "world \<Rightarrow> prepared \<Rightarrow> jsstring + prepared" where
  "write_source w files =
     (case writeSource_error w of Some msg \<Rightarrow> Inl msg | None \<Rightarrow> Inr files)"

definition prepareFiles :: "world \<Rightarrow> jsstring \<Rightarrow> jsstring \<Rightarrow> jsstring \<Rightarrow> jsstring + prepared" where
  "prepareFiles w workDir code language =
     (if language = js ''cpp'' then
        write_source w
          \<lparr>sourceFile = path_join workDir (js ''solution.cpp''),
           executableFile = path_join workDir (js ''solution''),
           compileCommand = Some (js ''g++ -std=c++17 -O2 -Wall ''
             @ path_join workDir (js ''solution.cpp'') @ js '' -o ''
             @ path_join workDir (js ''solution'')),
           runCommand = path_join workDir (js ''solution'')\<rparr>
      else if language = js ''python'' then
        write_source w
          \<lparr>sourceFile = path_join workDir (js ''solution.py''),
           executableFile = path_join workDir (js ''solution.py''),
           compileCommand = None,
           runCommand = js ''python3 '' @ path_join workDir (js ''solution.py'')\<rparr>
      else if language = js ''java'' then
        write_source w
          \<lparr>sourceFile = path_join workDir (js ''Solution.java''),
           executableFile = path_join workDir (js ''Solution''),
           compileCommand = Some (js ''javac '' @ path_join workDir (js ''Solution.java'')),
           runCommand = js ''java -cp '' @ workDir @ js '' Solution''\<rparr>
      else if language = js ''javascript'' then
        write_source w
          \<lparr>sourceFile = path_join workDir (js ''solution.js''),
           executableFile = path_join workDir (js ''solution.js''),
           compileCommand = None,
           runCommand = js ''node '' @ path_join workDir (js ''solution.js'')\<rparr>
      else Inl (js ''Unsupported language: '' @ language))"

text \<open>
  \<^verbatim>\<open>compile(workDir, compileCommand)\<close> returns \<^verbatim>\<open>{success: true, time}\<close> or
  \<^verbatim>\<open>{success: false, error, time}\<close>.
\<close>

datatype compile_result =
  CompileOk int
  | CompileFailed jsstring int

definition compile :: "world \<Rightarrow> jsstring \<Rightarrow> compile_result" where
  "compile w cmd =
     (case compile_exec w cmd of
        Resolved out err compilationTime \<Rightarrow>
          if truthy err then CompileFailed err compilationTime
          else CompileOk compilationTime
      | Rejected e \<Rightarrow>
          CompileFailed
            (case err_stderr e of
               Some t \<Rightarrow> str_or t (err_message e)
             | None \<Rightarrow> err_message e)
            0)"

text \<open>The object \<^verbatim>\<open>runTestCase\<close> returns.\<close>

record run_result =
  rr_passed :: bool
  rr_time :: int
  rr_memory :: int
  rr_output :: jsstring
  rr_error :: jsstring

text \<open>The \<^verbatim>\<open>catch\<close> block of \<^verbatim>\<open>runTestCase\<close>.\<close>

definition error_message :: "js_error \<Rightarrow> jsstring" where
  "error_message e =
     (if err_signal e = Some (js ''SIGTERM'') \<or> err_signal e = Some (js ''SIGKILL'')
      then js ''Time limit exceeded''
      else if err_code e = Some 134 then js ''Memory limit exceeded''
      else (case err_stderr e of
              Some t \<Rightarrow> if truthy t then js ''Runtime error: '' @ t else js ''Runtime error''
            | None \<Rightarrow> js ''Runtime error''))"

definition failed_run :: "int \<Rightarrow> js_error \<Rightarrow> run_result" where
  "failed_run timeLimit e =
     \<lparr>rr_passed = False, rr_time = timeLimit, rr_memory = 0, rr_output = [],
      rr_error = error_message e\<rparr>"

text \<open>
  \<^verbatim>\<open>runTestCase(workDir, executableFile, runCommand, input, timeLimit, memoryLimit,
  testCaseIndex)\<close>. The expected output of the test case is not among its parameters:
  the value it calls \<^verbatim>\<open>normalizedExpectedOutput\<close> is \<^verbatim>\<open>normalizeOutput(stdout || '')\<close>, the
  captured standard output of the shell command.
\<close>

definition runTestCase ::
  "world \<Rightarrow> jsstring \<Rightarrow> jsstring \<Rightarrow> jsstring \<Rightarrow> jsstring \<Rightarrow> int \<Rightarrow> int \<Rightarrow> nat \<Rightarrow> host
    \<Rightarrow> run_result \<times> host" where
  "runTestCase w workDir exeFile runCmd inp timeLimit memoryLimit testCaseIndex h =
     (let env = case_exec w testCaseIndex inp in
      if write_input_error env then (failed_run timeLimit fs_error, h)
      else
        let h' = h\<lparr>spawned := spawned h @ [RunCase testCaseIndex runCmd]\<rparr> in
        case run_outcome env of
          Rejected e \<Rightarrow> (failed_run timeLimit e, h')
        | Resolved stdout stderr executionTime \<Rightarrow>
            (case output_file env of
               None \<Rightarrow> (failed_run timeLimit fs_error, h')
             | Some output \<Rightarrow>
                 let errorOutput = (case error_file env of None \<Rightarrow> [] | Some t \<Rightarrow> t);
                     normalizedOutput = normalizeOutput output;
                     normalizedExpectedOutput = normalizeOutput (str_or stdout []);
                     passed = (normalizedOutput = normalizedExpectedOutput)
                 in (\<lparr>rr_passed = passed, rr_time = executionTime, rr_memory = 0,
                      rr_output = normalizedOutput,
                      rr_error = str_or errorOutput stderr\<rparr>, h')))"

text \<open>An entry of \<^verbatim>\<open>results\<close>; \<^verbatim>\<open>testCaseId\<close> is \<^verbatim>\<open>testCase._id || i\<close>.\<close>

record case_result =
  cr_testCaseId :: "jsstring + nat"
  cr_passed :: bool
  cr_timeTaken :: int
  cr_memoryUsed :: int
  cr_input :: jsstring
  cr_expectedOutput :: jsstring
  cr_actualOutput :: jsstring
  cr_error :: jsstring
  cr_score :: int

text \<open>The variables of the test loop.\<close>

record loop_state =
  results :: "case_result list"
  totalScore :: int
  maxScore_acc :: int
  totalTime :: int
  maxMemory :: int

text \<open>\<^verbatim>\<open>testCase.points || 10\<close>\<close>

definition points_or_10 :: "test_case \<Rightarrow> int" where
  "points_or_10 testCase = num_or (tc_points testCase) 10"

text \<open>The loop body after \<^verbatim>\<open>runTestCase\<close> has returned \<open>result\<close> for test case \<open>i\<close>.\<close>

definition record_result :: "loop_state \<Rightarrow> nat \<Rightarrow> test_case \<Rightarrow> run_result \<Rightarrow> loop_state" where
  "record_result st i testCase result =
     (let testCaseScore = (if rr_passed result then points_or_10 testCase else 0) in
      \<lparr>results = results st @
         [\<lparr>cr_testCaseId = (case tc_id testCase of Some oid \<Rightarrow> Inl oid | None \<Rightarrow> Inr i),
           cr_passed = rr_passed result,
           cr_timeTaken = rr_time result,
           cr_memoryUsed = rr_memory result,
           cr_input = tc_input testCase,
           cr_expectedOutput = tc_output testCase,
           cr_actualOutput = rr_output result,
           cr_error = rr_error result,
           cr_score = testCaseScore\<rparr>],
       totalScore = totalScore st + testCaseScore,
       maxScore_acc = maxScore_acc st + points_or_10 testCase,
       totalTime = max (totalTime st) (rr_time result),
       maxMemory = max (maxMemory st) (rr_memory result)\<rparr>)"

fun run_loop ::
  "world \<Rightarrow> jsstring \<Rightarrow> prepared \<Rightarrow> int \<Rightarrow> int \<Rightarrow> nat \<Rightarrow> test_case list \<Rightarrow> loop_state \<Rightarrow> host
    \<Rightarrow> loop_state \<times> host" where
  "run_loop w workDir files execTimeLimit execMemoryLimit i [] st h = (st, h)"
| "run_loop w workDir files execTimeLimit execMemoryLimit i (testCase # rest) st h =
     (case runTestCase w workDir (executableFile files) (runCommand files) (tc_input testCase)
             execTimeLimit execMemoryLimit i h of
        (result, h') \<Rightarrow>
          run_loop w workDir files execTimeLimit execMemoryLimit (Suc i) rest
            (record_result st i testCase result) h')"

text \<open>
  The status from the scores (\<^verbatim>\<open>let status = 'accepted'; if (totalScore === 0) ... else if
  (totalScore < maxScore) ...\<close>).
\<close>

definition score_status :: "int \<Rightarrow> int \<Rightarrow> status" where
  "score_status totalS maxS =
     (if totalS = 0 then WrongAnswer
      else if totalS < maxS then PartialCorrect
      else Accepted)"

text \<open>
  The body of the loop over \<^verbatim>\<open>results\<close> that checks for specific errors: the status one
  result sets before the \<^verbatim>\<open>break\<close>, or \<open>None\<close> when the loop goes on to the next result.
\<close>

definition error_class :: "case_result \<Rightarrow> status option" where
  "error_class result =
     (if truthy (cr_error result) then
        if str_includes (cr_error result) (js ''Time limit exceeded'') then Some TimeLimitExceeded
        else if str_includes (cr_error result) (js ''Memory limit exceeded'')
          then Some MemoryLimitExceeded
        else if str_includes (cr_error result) (js ''Runtime error'') then Some RuntimeError
        else None
      else None)"

fun scan_errors :: "status \<Rightarrow> case_result list \<Rightarrow> status" where
  "scan_errors st [] = st"
| "scan_errors st (result # rest) =
     (case error_class result of
        Some failure \<Rightarrow> failure
      | None \<Rightarrow> scan_errors st rest)"

text \<open>The resolution of the overall status: the score-based status, then the scan.\<close>

definition resolve_status :: "int \<Rightarrow> int \<Rightarrow> case_result list \<Rightarrow> status" where
  "resolve_status totalS maxS rs = scan_errors (score_status totalS maxS) rs"

text \<open>The object \<^verbatim>\<open>execute\<close> returns when the test cases were run (\<^verbatim>\<open>success: true\<close>).\<close>

record graded =
  status :: status
  score :: int
  maxScore :: int
  timeTaken :: int
  memoryUsed :: int
  testCasesPassed :: nat
  totalTestCases :: nat
  testCaseResults :: "case_result list"

text \<open>
  The result of \<^verbatim>\<open>execute\<close>: \<open>Graded\<close> is the object with \<^verbatim>\<open>success: true\<close>; \<open>Failed\<close> is
  \<^verbatim>\<open>{success: false, status, error, compilationTime}\<close> (the compilation time is present
  for a compilation error only).
\<close>

datatype exec_result =
  Graded graded
  | Failed status jsstring "int option"

text \<open>The \<^verbatim>\<open>status\<close> field of either shape.\<close>

fun result_status :: "exec_result \<Rightarrow> status" where
  "result_status (Graded g) = status g"
| "result_status (Failed st msg t) = st"

text \<open>The test loop, the resolution of the status, and the object returned.\<close>

definition run_tests ::
  "world \<Rightarrow> jsstring \<Rightarrow> prepared \<Rightarrow> int \<Rightarrow> int \<Rightarrow> test_case list \<Rightarrow> host \<Rightarrow> exec_result \<times> host" where
  "run_tests w workDir files execTimeLimit execMemoryLimit testCases h =
     (case run_loop w workDir files execTimeLimit execMemoryLimit 0 testCases
             \<lparr>results = [], totalScore = 0, maxScore_acc = 0, totalTime = 0, maxMemory = 0\<rparr> h of
        (st, h') \<Rightarrow>
          (Graded
             \<lparr>status = resolve_status (totalScore st) (maxScore_acc st) (results st),
              score = totalScore st,
              maxScore = maxScore_acc st,
              timeTaken = totalTime st,
              memoryUsed = maxMemory st,
              testCasesPassed = length (filter cr_passed (results st)),
              totalTestCases = length testCases,
              testCaseResults = results st\<rparr>, h'))"

text \<open>
  The \<^verbatim>\<open>try\<close> block of \<^verbatim>\<open>execute\<close> together with its \<^verbatim>\<open>catch\<close>: an error thrown by
  \<^verbatim>\<open>fs.ensureDir\<close> or \<^verbatim>\<open>prepareFiles\<close> becomes
  \<^verbatim>\<open>{success: false, status: 'runtime-error', error: error.message}\<close>. The defaults are those
  of the constructor (5000 ms, 256 MB).
\<close>

definition execute_try ::
  "world \<Rightarrow> host \<Rightarrow> jsstring \<Rightarrow> jsstring \<Rightarrow> jsstring \<Rightarrow> test_case list \<Rightarrow> int option \<Rightarrow> int option
    \<Rightarrow> exec_result \<times> host" where
  "execute_try w h workDir code language testCases timeLimit memoryLimit =
     (case ensureDir_error w of
        Some msg \<Rightarrow> (Failed RuntimeError msg None, h)
      | None \<Rightarrow>
          let h1 = h\<lparr>dirs := insert workDir (dirs h)\<rparr>;
              execTimeLimit = num_or timeLimit 5000;
              execMemoryLimit = num_or memoryLimit (256 * 1024 * 1024)
          in case prepareFiles w workDir code language of
               Inl msg \<Rightarrow> (Failed RuntimeError msg None, h1)
             | Inr files \<Rightarrow>
                 (case compileCommand files of
                    Some cmd \<Rightarrow>
                      let h2 = h1\<lparr>spawned := spawned h1 @ [CompileCmd cmd]\<rparr> in
                      (case compile w cmd of
                         CompileFailed err t \<Rightarrow> (Failed CompilationError err (Some t), h2)
                       | CompileOk t \<Rightarrow>
                           run_tests w workDir files execTimeLimit execMemoryLimit testCases h2)
                  | None \<Rightarrow>
                      run_tests w workDir files execTimeLimit execMemoryLimit testCases h1))"

text \<open>
  The \<^verbatim>\<open>finally\<close> block: \<^verbatim>\<open>fs.remove(workDir)\<close> inside its own \<^verbatim>\<open>try\<close>; an error it throws
  is logged and dropped, and the directory stays.
\<close>

definition cleanup :: "world \<Rightarrow> jsstring \<Rightarrow> host \<Rightarrow> host" where
  "cleanup w workDir h =
     (if remove_error w then h else h\<lparr>dirs := dirs h - {workDir}\<rparr>)"

text \<open>The working directory of a run: \<^verbatim>\<open>path.join(this.tempDir, executionId)\<close>.\<close>

definition workDir_of :: "world \<Rightarrow> jsstring" where
  "workDir_of w = path_join (tempDir w) (uuidv4 w)"

text \<open>
  \<^verbatim>\<open>execute(submissionId, code, language, testCases, timeLimit = null, memoryLimit = null)\<close>
\<close>

definition execute ::
  "world \<Rightarrow> host \<Rightarrow> jsstring \<Rightarrow> jsstring \<Rightarrow> jsstring \<Rightarrow> test_case list \<Rightarrow> int option \<Rightarrow> int option
    \<Rightarrow> exec_result \<times> host" where
  "execute w h submissionId code language testCases timeLimit memoryLimit =
     (case execute_try w h (workDir_of w) code language testCases timeLimit memoryLimit of
        (res, h') \<Rightarrow> (res, cleanup w (workDir_of w) h'))"

text \<open>The test-case results of either shape (a failed run reports none).\<close>

fun result_cases :: "exec_result \<Rightarrow> case_result list" where
  "result_cases (Graded g) = testCaseResults g"
| "result_cases (Failed st msg t) = []"

section \<open>Concrete runs\<close>

definition host0 :: host where
  "host0 = \<lparr>dirs = {}, spawned = []\<rparr>"

text \<open>A host state in which a working directory of an earlier run was left behind.\<close>

definition host_stale :: host where
  "host_stale = \<lparr>dirs = {js ''/tmp/run-0''}, spawned = []\<rparr>"

text \<open>
  A host on which everything works and the submitted program copies its input to its
  output, followed by a line feed. The shell command redirects the program's output to
  the output file, so the captured standard output of the command is empty.
\<close>

definition echo_world :: world where
  "echo_world =
     \<lparr>uuidv4 = js ''run-1'', tempDir = js ''/tmp'',
      ensureDir_error = None, writeSource_error = None,
      compile_exec = (\<lambda>cmd. Resolved [] [] 300),
      case_exec = (\<lambda>i inp.
        \<lparr>write_input_error = False, run_outcome = Resolved [] [] 12,
         output_file = Some (inp @ [nl]), error_file = Some []\<rparr>),
      remove_error = False\<rparr>"

text \<open>The same host, with a submitted program that prints nothing.\<close>

definition silent_world :: world where
  "silent_world =
     echo_world\<lparr>case_exec := (\<lambda>i inp.
        \<lparr>write_input_error = False, run_outcome = Resolved [] [] 12,
         output_file = Some [], error_file = Some []\<rparr>)\<rparr>"

text \<open>The same host, on which removing the working directory fails.\<close>

definition stuck_world :: world where
  "stuck_world = echo_world\<lparr>remove_error := True\<rparr>"

definition case_seven :: test_case where
  "case_seven =
     \<lparr>tc_id = Some (js ''t7''), tc_input = js ''7'', tc_output = js ''7'', tc_points = Some 10\<rparr>"

text \<open>
  A host on which the program is killed by SIGTERM on the input \<^verbatim>\<open>loop\<close>, exits with
  status 1 after writing to standard error on the input \<^verbatim>\<open>crash\<close>, and prints nothing on
  every other input.
\<close>

definition timeout_error :: js_error where
  "timeout_error =
     \<lparr>err_message = js ''Command failed'', err_signal = Some (js ''SIGTERM''),
      err_code = None, err_stderr = Some []\<rparr>"

definition crash_error :: js_error where
  "crash_error =
     \<lparr>err_message = js ''Command failed'', err_signal = None,
      err_code = Some 1, err_stderr = Some (js ''Segmentation fault'')\<rparr>"

definition mixed_world :: world where
  "mixed_world =
     echo_world\<lparr>case_exec := (\<lambda>i inp.
        \<lparr>write_input_error = False,
         run_outcome =
           (if inp = js ''loop'' then Rejected timeout_error
            else if inp = js ''crash'' then Rejected crash_error
            else Resolved [] [] 12),
         output_file = Some [], error_file = Some []\<rparr>)\<rparr>"

definition case_loop :: test_case where
  "case_loop =
     \<lparr>tc_id = Some (js ''t1''), tc_input = js ''loop'', tc_output = js ''1'', tc_points = Some 10\<rparr>"

definition case_crash :: test_case where
  "case_crash =
     \<lparr>tc_id = Some (js ''t2''), tc_input = js ''crash'', tc_output = js ''2'', tc_points = Some 10\<rparr>"

definition case_zero :: test_case where
  "case_zero =
     \<lparr>tc_id = None, tc_input = js ''0'', tc_output = [], tc_points = Some 0\<rparr>"

text \<open>Three case results: a pass, a time-out and a crash.\<close>

definition passed_result :: case_result where
  "passed_result =
     \<lparr>cr_testCaseId = Inl (js ''t7''), cr_passed = True, cr_timeTaken = 12, cr_memoryUsed = 0,
      cr_input = js ''7'', cr_expectedOutput = js ''7'', cr_actualOutput = [], cr_error = [],
      cr_score = 10\<rparr>"

definition timeout_result :: case_result where
  "timeout_result =
     \<lparr>cr_testCaseId = Inl (js ''t1''), cr_passed = False, cr_timeTaken = 5000, cr_memoryUsed = 0,
      cr_input = js ''loop'', cr_expectedOutput = js ''1'', cr_actualOutput = [],
      cr_error = js ''Time limit exceeded'', cr_score = 0\<rparr>"

definition crash_result :: case_result where
  "crash_result =
     \<lparr>cr_testCaseId = Inl (js ''t2''), cr_passed = False, cr_timeTaken = 5000, cr_memoryUsed = 0,
      cr_input = js ''crash'', cr_expectedOutput = js ''2'', cr_actualOutput = [],
      cr_error = js ''Runtime error: Segmentation fault'', cr_score = 0\<rparr>"

text \<open>A host on which the compiler exits with status 0 after printing a warning.\<close>

definition warning_world :: world where
  "warning_world =
     echo_world\<lparr>compile_exec := (\<lambda>cmd. Resolved [] (js ''warning: unused variable'') 300)\<rparr>"

text \<open>A host on which the compiler fails with a diagnostic.\<close>

definition broken_build_world :: world where
  "broken_build_world =
     echo_world\<lparr>compile_exec := (\<lambda>cmd. Rejected
        \<lparr>err_message = js ''Command failed'', err_signal = None, err_code = Some 1,
         err_stderr = Some (js ''error: expected ;'')\<rparr>)\<rparr>"

section \<open>Properties of output normalization\<close>

lemma trim_end_Nil [simp]: "trim_end [] = []" by (simp add: trim_end_def)
lemma trim_start_Nil [simp]: "trim_start [] = []" by (simp add: trim_start_def)
lemma trim_Nil [simp]: "trim [] = []" by (simp add: trim_def)

lemma trim_end_id: "s \<noteq> [] \<Longrightarrow> \<not> is_ws (last s) \<Longrightarrow> trim_end s = s"
  by (cases s rule: rev_cases) (simp_all add: trim_end_def)

lemma trim_start_id: "s \<noteq> [] \<Longrightarrow> \<not> is_ws (hd s) \<Longrightarrow> trim_start s = s"
  by (cases s) (simp_all add: trim_start_def)

lemma trim_start_hd: "trim_start s \<noteq> [] \<Longrightarrow> \<not> is_ws (hd (trim_start s))"
  unfolding trim_start_def using hd_dropWhile by blast

lemma trim_end_last: "trim_end s \<noteq> [] \<Longrightarrow> \<not> is_ws (last (trim_end s))"
  unfolding trim_end_def by (metis hd_dropWhile last_rev rev_is_Nil_conv)

lemma trim_end_prefix: "trim_end s @ rev (takeWhile is_ws (rev s)) = s"
proof -
  have "trim_end s @ rev (takeWhile is_ws (rev s)) =
      rev (takeWhile is_ws (rev s) @ dropWhile is_ws (rev s))"
    by (simp only: trim_end_def rev_append)
  also have "\<dots> = s"
    by (simp only: takeWhile_dropWhile_id rev_rev_ident)
  finally show ?thesis .
qed

lemma trim_end_hd: "trim_end s \<noteq> [] \<Longrightarrow> hd (trim_end s) = hd s"
  by (metis trim_end_prefix hd_append2)

lemma trim_clean: "trim s \<noteq> [] \<Longrightarrow> clean (trim s)"
  unfolding clean_def trim_def
  by (metis trim_end_hd trim_end_last trim_start_hd trim_end_Nil)

lemma trim_id: "clean s \<Longrightarrow> trim s = s"
  by (simp add: clean_def trim_def trim_start_id trim_end_id)

lemma join_nl_Cons: "ls \<noteq> [] \<Longrightarrow> join_nl (l # ls) = l @ nl # join_nl ls"
  by (cases ls) simp_all

lemma join_nl_clean: "list_all clean ls \<Longrightarrow> ls \<noteq> [] \<Longrightarrow> clean (join_nl ls)"
proof (induction ls rule: join_nl.induct)
  case 1 then show ?case by simp
next
  case (2 l) then show ?case by simp
next
  case (3 l v va)
  then have "clean (join_nl (v # va))" and "clean l" by simp_all
  then show ?case by (simp add: clean_def)
qed

lemma trim_join_nl: "list_all clean ls \<Longrightarrow> trim (join_nl ls) = join_nl ls"
  by (cases "ls = []") (simp_all add: join_nl_clean trim_id)

lemma lines_clean: "list_all clean (filter (\<lambda>line. length line > 0) (map (\<lambda>line. trim line) ls))"
  by (induction ls) (simp_all add: trim_clean)

lemma normalizeOutput_lines:
  "normalizeOutput s = join_nl (filter (\<lambda>line. length line > 0) (map (\<lambda>line. trim line) (split_nl s)))"
  unfolding normalizeOutput_def by (rule trim_join_nl) (rule lines_clean)

lemma split_nl_nonempty [simp]: "split_nl s \<noteq> []"
  by (cases s) simp_all

lemma split_nl_append:
  "split_nl (a @ b) = butlast (split_nl a) @ (last (split_nl a) @ hd (split_nl b)) # tl (split_nl b)"
proof (induction a)
  case Nil then show ?case by simp
next
  case (Cons c a)
  show ?case
  proof (cases "c = nl")
    case True with Cons show ?thesis by simp
  next
    case False
    with Cons show ?thesis by (cases "split_nl a" rule: rev_cases) (auto simp: butlast_append hd_append)
  qed
qed

lemma split_nl_snoc_nl: "split_nl (s @ [nl]) = split_nl s @ [[]]"
  by (simp add: split_nl_append)

lemma normalizeOutput_trailing_nl: "normalizeOutput (s @ [nl]) = normalizeOutput s"
  by (simp add: normalizeOutput_def split_nl_snoc_nl)


lemma length_join_nl: "length (join_nl ls) = sum_list (map length ls) + (length ls - 1)"
  by (induction ls rule: join_nl.induct) simp_all

lemma nl_is_ws: "is_ws nl"
  by (simp add: is_ws_def nl_def)

lemma sp_not_nl: "sp \<noteq> nl"
  by (simp add: sp_def nl_def)

lemma last_split_nl:
  "u \<noteq> [] \<Longrightarrow> last u \<noteq> nl \<Longrightarrow> last (split_nl u) \<noteq> [] \<and> last (last (split_nl u)) = last u"
  by (cases u rule: rev_cases) (simp_all add: split_nl_append)

lemma hd_split_nl:
  "v \<noteq> [] \<Longrightarrow> hd v \<noteq> nl \<Longrightarrow> hd (split_nl v) \<noteq> [] \<and> hd (hd (split_nl v)) = hd v"
  by (cases v) simp_all

lemma trim_around:
  assumes "x \<noteq> []" "\<not> is_ws (last x)" "y \<noteq> []" "\<not> is_ws (hd y)"
  shows "trim (x @ m @ y) = trim_start x @ m @ trim_end y"
proof -
  have "last x \<in> set x" using assms(1) by simp
  then have a: "trim_start (x @ m @ y) = trim_start x @ m @ y"
    using assms(2) by (simp add: trim_start_def dropWhile_append1)
  have "hd y \<in> set (rev y)" using assms(3) by simp
  then have "dropWhile is_ws (rev y @ rev m @ rev (trim_start x)) =
      dropWhile is_ws (rev y) @ rev m @ rev (trim_start x)"
    using assms(4) by (simp add: dropWhile_append1)
  then have "trim_end (trim_start x @ m @ y) = trim_start x @ m @ trim_end y"
    by (simp add: trim_end_def)
  with a show ?thesis by (simp add: trim_def)
qed

lemma length_normalizeOutput_gap:
  assumes "u \<noteq> []" "\<not> is_ws (last u)" "v \<noteq> []" "\<not> is_ws (hd v)"
    and "m \<noteq> []" "nl \<notin> set m" "m' \<noteq> []" "nl \<notin> set m'"
  shows "length (normalizeOutput (u @ m @ v)) + length m' =
    length (normalizeOutput (u @ m' @ v)) + length m"
proof -
  define keep where "keep ls = filter (\<lambda>line. length line > 0) (map (\<lambda>line. trim line) ls)"
    for ls :: "jsstring list"
  define K where "K = sum_list (map length (keep (butlast (split_nl u))))
    + length (trim_start (last (split_nl u))) + length (trim_end (hd (split_nl v)))
    + sum_list (map length (keep (tl (split_nl v))))
    + length (keep (butlast (split_nl u))) + length (keep (tl (split_nl v)))"
  have x: "last (split_nl u) \<noteq> []" "\<not> is_ws (last (last (split_nl u)))"
  proof -
    have "last u \<noteq> nl" using assms(2) nl_is_ws by metis
    then show "last (split_nl u) \<noteq> []" "\<not> is_ws (last (last (split_nl u)))"
      using last_split_nl [of u] assms(1,2) by simp_all
  qed
  have y: "hd (split_nl v) \<noteq> []" "\<not> is_ws (hd (hd (split_nl v)))"
  proof -
    have "hd v \<noteq> nl" using assms(4) nl_is_ws by metis
    then show "hd (split_nl v) \<noteq> []" "\<not> is_ws (hd (hd (split_nl v)))"
      using hd_split_nl [of v] assms(3,4) by simp_all
  qed
  have G: "length (normalizeOutput (u @ n @ v)) = K + length n" if n: "n \<noteq> []" "nl \<notin> set n" for n
  proof -
    have m: "split_nl (n @ v) = (n @ hd (split_nl v)) # tl (split_nl v)"
      using n(2) by (induction n) auto
    have t: "trim (last (split_nl u) @ n @ hd (split_nl v)) =
        trim_start (last (split_nl u)) @ n @ trim_end (hd (split_nl v))"
      by (rule trim_around [OF x(1) x(2) y(1) y(2)])
    have s: "split_nl (u @ n @ v) =
        butlast (split_nl u) @ (last (split_nl u) @ n @ hd (split_nl v)) # tl (split_nl v)"
      by (simp add: split_nl_append [of u] m)
    have "normalizeOutput (u @ n @ v) =
        join_nl (keep (butlast (split_nl u)) @
          (trim_start (last (split_nl u)) @ n @ trim_end (hd (split_nl v))) # keep (tl (split_nl v)))"
      unfolding normalizeOutput_lines s keep_def using n(1) by (simp add: t)
    then show ?thesis
      by (simp add: length_join_nl K_def)
  qed
  show ?thesis
    using G [OF assms(5,6)] G [OF assms(7,8)] by simp
qed

lemma normalizeOutput_internal_space:
  assumes "u \<noteq> []" "\<not> is_ws (last u)" "v \<noteq> []" "\<not> is_ws (hd v)"
  shows "normalizeOutput (u @ sp # v) \<noteq> normalizeOutput (u @ sp # sp # v)"
proof -
  have "length (normalizeOutput (u @ [sp] @ v)) + length [sp, sp] =
      length (normalizeOutput (u @ [sp, sp] @ v)) + length [sp]"
    by (rule length_normalizeOutput_gap [OF assms]) (simp_all add: sp_not_nl [symmetric])
  then have "length (normalizeOutput (u @ sp # v)) \<noteq> length (normalizeOutput (u @ sp # sp # v))"
    by simp
  then show ?thesis by metis
qed


text \<open>
  C4, as stated: \<open>normalizeOutput\<close> equals the reference transform that trims only the
  trailing white space of each line. It does not: \<^verbatim>\<open>line.trim()\<close> also removes the leading
  white space, so an indented line loses its indentation.
\<close>

theorem C4_leading_space_counterexample:
  "normalizeOutput (js ''  x'') = js ''x'' \<and> normalize_spec (js ''  x'') = js ''  x''"
  by (simp add: normalizeOutput_def normalize_spec_def trim_def trim_start_def trim_end_def
      js_def is_ws_def nl_def)

text \<open>
  C4, amended: \<open>normalizeOutput\<close> splits the text into lines, trims the white space at
  both ends of each line (the spacing inside a line stays), drops the lines that are
  then empty and joins the rest with line feeds (the final \<^verbatim>\<open>trim()\<close> changes nothing).
  Appending a line feed never changes the normal form; one more space between two
  characters that are not white space always does.
\<close>

theorem C4_normalizeOutput_both_ends:
  "normalizeOutput s = join_nl (filter (\<lambda>line. line \<noteq> []) (map trim (split_nl s)))
   \<and> normalizeOutput (s @ [nl]) = normalizeOutput s
   \<and> (u \<noteq> [] \<and> \<not> is_ws (last u) \<and> v \<noteq> [] \<and> \<not> is_ws (hd v)
      \<longrightarrow> normalizeOutput (u @ sp # v) \<noteq> normalizeOutput (u @ sp # sp # v))"
  using normalizeOutput_lines [of s] normalizeOutput_trailing_nl [of s]
    normalizeOutput_internal_space [of u v]
  by simp

theorem C4_normalizeOutput_both_ends_witness:
  "normalizeOutput (js ''3 4'' @ [nl]) = normalizeOutput (js ''3 4'')
   \<and> normalizeOutput (js ''3'' @ sp # js ''4'') \<noteq> normalizeOutput (js ''3'' @ sp # sp # js ''4'')"
  using C4_normalizeOutput_both_ends [of "js ''3 4''" "js ''3''" "js ''4''"]
  by (simp add: js_def is_ws_def)

section \<open>Properties of the test-case runner\<close>

lemmas run_defs = execute_def execute_try_def workDir_of_def cleanup_def run_tests_def
  prepareFiles_def write_source_def compile_def runTestCase_def record_result_def
  points_or_10_def num_or_def failed_run_def error_message_def fs_error_def
  resolve_status_def score_status_def error_class_def truthy_def str_or_def path_join_def

lemmas norm_defs = normalizeOutput_def trim_def trim_start_def trim_end_def is_ws_def nl_def

lemma runTestCase_completed:
  assumes "\<not> write_input_error (case_exec w i inp)"
    and "run_outcome (case_exec w i inp) = Resolved out err t"
    and "output_file (case_exec w i inp) = Some actual"
  shows "rr_passed (fst (runTestCase w wd exe cmd inp tlim mlim i h))
      = (normalizeOutput actual = normalizeOutput out)"
  using assms by (simp add: runTestCase_def Let_def str_or_def truthy_def)

lemma runTestCase_rejected:
  assumes "\<not> write_input_error (case_exec w i inp)"
    and "run_outcome (case_exec w i inp) = Rejected e"
  shows "fst (runTestCase w wd exe cmd inp tlim mlim i h) = failed_run tlim e"
  using assms by (simp add: runTestCase_def Let_def)

text \<open>
  C1: a case whose run completes normally should pass exactly when its normalized
  output equals the normalized expected output of the test case. \<open>runTestCase\<close> compares
  the output with the captured standard output of the shell command instead (see
  \<open>runTestCase_completed\<close>). A program that echoes the input \<^verbatim>\<open>7\<close> of a case expecting
  \<^verbatim>\<open>7\<close> is marked failed and the run is a wrong answer; a program that prints nothing
  passes the same case and is accepted.
\<close>

theorem C1_expected_output_ignored:
  "fst (execute echo_world host0 (js ''s1'') (js ''print(input())'') (js ''python'')
         [case_seven] None None)
     = Graded \<lparr>status = WrongAnswer, score = 0, maxScore = 10, timeTaken = 12, memoryUsed = 0,
         testCasesPassed = 0, totalTestCases = 1,
         testCaseResults =
           [\<lparr>cr_testCaseId = Inl (js ''t7''), cr_passed = False, cr_timeTaken = 12,
             cr_memoryUsed = 0, cr_input = js ''7'', cr_expectedOutput = js ''7'',
             cr_actualOutput = js ''7'', cr_error = [], cr_score = 0\<rparr>]\<rparr>
   \<and> fst (execute silent_world host0 (js ''s1'') (js ''pass'') (js ''python'')
         [case_seven] None None)
     = Graded \<lparr>status = Accepted, score = 10, maxScore = 10, timeTaken = 12, memoryUsed = 0,
         testCasesPassed = 1, totalTestCases = 1,
         testCaseResults =
           [\<lparr>cr_testCaseId = Inl (js ''t7''), cr_passed = True, cr_timeTaken = 12,
             cr_memoryUsed = 0, cr_input = js ''7'', cr_expectedOutput = js ''7'',
             cr_actualOutput = [], cr_error = [], cr_score = 10\<rparr>]\<rparr>"
  by (simp add: run_defs norm_defs silent_world_def echo_world_def host0_def case_seven_def js_def)

section \<open>The working directory\<close>

lemma runTestCase_dirs: "dirs (snd (runTestCase w wd exe cmd inp tlim mlim i h)) = dirs h"
  by (simp add: runTestCase_def Let_def split: exec_outcome.split option.split)

lemma run_loop_dirs:
  "dirs (snd (run_loop w wd files tlim mlim i tcs st h)) = dirs h"
proof (induction tcs arbitrary: i st h)
  case Nil
  show ?case by simp
next
  case (Cons tc tcs)
  obtain r h' where r: "runTestCase w wd (executableFile files) (runCommand files) (tc_input tc)
      tlim mlim i h = (r, h')"
    by (cases "runTestCase w wd (executableFile files) (runCommand files) (tc_input tc) tlim mlim i h")
  have "dirs h' = dirs h"
    using runTestCase_dirs [of w wd "executableFile files" "runCommand files" "tc_input tc" tlim mlim i h] r
    by simp
  with Cons r show ?case by simp
qed

lemma run_tests_dirs: "dirs (snd (run_tests w wd files tlim mlim tcs h)) = dirs h"
  using run_loop_dirs [of w wd files tlim mlim 0 tcs _ h]
  by (simp add: run_tests_def split: prod.split) (metis snd_conv)

lemma execute_try_dirs:
  "dirs (snd (execute_try w h wd code language tcs tlim mlim)) = dirs h
   \<or> dirs (snd (execute_try w h wd code language tcs tlim mlim)) = insert wd (dirs h)"
proof (cases "ensureDir_error w")
  case (Some msg)
  then show ?thesis by (simp add: execute_try_def)
next
  case None
  show ?thesis
  proof (cases "prepareFiles w wd code language")
    case (Inl msg)
    with None show ?thesis by (simp add: execute_try_def)
  next
    case (Inr files)
    show ?thesis
    proof (cases "compileCommand files")
      case no: None
      with None Inr show ?thesis by (simp add: execute_try_def run_tests_dirs)
    next
      case (Some cmd)
      with None Inr show ?thesis
        by (cases "compile w cmd") (simp_all add: execute_try_def run_tests_dirs)
    qed
  qed
qed

text \<open>
  C8, amended: on every exit path of \<open>execute\<close> (host error, compilation failure, test
  cases run to the end whatever their outcomes) the working directory of the run is
  gone when \<open>execute\<close> returns, provided the final \<^verbatim>\<open>fs.remove(workDir)\<close> does not itself
  fail.
\<close>

theorem C8_workDir_removed:
  "\<not> remove_error w \<Longrightarrow>
     workDir_of w \<notin> dirs (snd (execute w h sid code language tcs tlim mlim))"
proof -
  assume ok: "\<not> remove_error w"
  obtain res h' where e: "execute_try w h (workDir_of w) code language tcs tlim mlim = (res, h')"
    by (cases "execute_try w h (workDir_of w) code language tcs tlim mlim")
  have "snd (execute w h sid code language tcs tlim mlim) = cleanup w (workDir_of w) h'"
    by (simp add: execute_def e)
  then have "dirs (snd (execute w h sid code language tcs tlim mlim)) = dirs h' - {workDir_of w}"
    using ok by (simp add: cleanup_def)
  then show ?thesis by simp
qed

theorem C8_workDir_removed_witness:
  "\<not> remove_error echo_world
   \<and> workDir_of echo_world \<notin> dirs (snd (execute echo_world host_stale (js ''s1'')
        (js ''print(input())'') (js ''python'') [case_seven] None None))
   \<and> \<not> remove_error mixed_world
   \<and> workDir_of mixed_world \<notin> dirs (snd (execute mixed_world host_stale (js ''s1'') (js ''x'')
        (js ''cpp'') [case_loop, case_crash] None None))
   \<and> \<not> remove_error broken_build_world
   \<and> workDir_of broken_build_world \<notin> dirs (snd (execute broken_build_world host_stale (js ''s1'')
        (js ''x'') (js ''cpp'') [case_seven] None None))"
  using C8_workDir_removed [of echo_world host_stale "js ''s1''" "js ''print(input())''"
      "js ''python''" "[case_seven]" None None]
    C8_workDir_removed [of mixed_world host_stale "js ''s1''" "js ''x''" "js ''cpp''"
      "[case_loop, case_crash]" None None]
    C8_workDir_removed [of broken_build_world host_stale "js ''s1''" "js ''x''" "js ''cpp''"
      "[case_seven]" None None]
  by (simp add: echo_world_def mixed_world_def broken_build_world_def)

text \<open>
  C8, as stated: no working directory remains after any outcome. When the final
  \<^verbatim>\<open>fs.remove(workDir)\<close> throws, the \<^verbatim>\<open>finally\<close> block logs the error and drops it, and the
  directory is still there when \<open>execute\<close> returns.
\<close>

theorem C8_remove_failure_counterexample:
  "workDir_of stuck_world \<in> dirs (snd (execute stuck_world host0 (js ''s1'') (js ''print(input())'')
        (js ''python'') [case_seven] None None))"
  by (simp add: run_defs norm_defs stuck_world_def echo_world_def host0_def case_seven_def js_def)

section \<open>The build step\<close>

lemma execute_fst:
  "fst (execute w h sid code language tcs tlim mlim)
     = fst (execute_try w h (workDir_of w) code language tcs tlim mlim)"
  by (simp add: execute_def split: prod.split)


lemma execute_try_build_failed:
  assumes "ensureDir_error w = None"
    and "prepareFiles w wd code language = Inr files"
    and "compileCommand files = Some cmd"
    and "compile w cmd = CompileFailed err t"
  shows "execute_try w h wd code language tcs tlim mlim
     = (Failed CompilationError err (Some t),
        h\<lparr>dirs := insert wd (dirs h), spawned := spawned h @ [CompileCmd cmd]\<rparr>)"
  using assms by (simp add: execute_try_def)




text \<open>
  C10: when the compile command resolves (the compiler exits with status 0) but has
  written any text to standard error, \<open>compile\<close> reports a failure carrying that text and
  \<open>execute\<close> returns a compilation error without running a test case. For C++ the
  compile command is \<^verbatim>\<open>g++ -std=c++17 -O2 -Wall <source> -o <executable>\<close>, so a warning
  is enough.
\<close>

theorem C10_stderr_fails_build:
  assumes "ensureDir_error w = None"
    and "prepareFiles w (workDir_of w) code language = Inr files"
    and "compileCommand files = Some cmd"
    and "compile_exec w cmd = Resolved out err t"
    and "err \<noteq> []"
  shows "compile w cmd = CompileFailed err t
    \<and> execute w h sid code language tcs tlim mlim
        = (Failed CompilationError err (Some t),
           cleanup w (workDir_of w)
             (h\<lparr>dirs := insert (workDir_of w) (dirs h), spawned := spawned h @ [CompileCmd cmd]\<rparr>))
    \<and> (language = js ''cpp'' \<longrightarrow>
          cmd = js ''g++ -std=c++17 -O2 -Wall '' @ sourceFile files @ js '' -o '' @ executableFile files)"
proof -
  have c: "compile w cmd = CompileFailed err t"
    using assms(4,5) by (simp add: compile_def truthy_def)
  have "language = js ''cpp'' \<longrightarrow>
      cmd = js ''g++ -std=c++17 -O2 -Wall '' @ sourceFile files @ js '' -o '' @ executableFile files"
    using assms(2,3) by (auto simp: prepareFiles_def write_source_def split: option.splits)
  then show ?thesis
    using c execute_try_build_failed [OF assms(1,2,3) c, of h tcs tlim mlim]
    by (simp add: execute_def)
qed

theorem C10_stderr_fails_build_witness:
  "execute warning_world host0 (js ''s1'') (js ''int main() { int x; }'') (js ''cpp'')
        [case_seven] None None
     = (Failed CompilationError (js ''warning: unused variable'') (Some 300),
        \<lparr>dirs = {},
         spawned = [CompileCmd (js ''g++ -std=c++17 -O2 -Wall /tmp/run-1/solution.cpp -o /tmp/run-1/solution'')]\<rparr>)"
  using C10_stderr_fails_build [of warning_world
      "js ''int main() { int x; }''" "js ''cpp''"
      "\<lparr>sourceFile = js ''/tmp/run-1/solution.cpp'', executableFile = js ''/tmp/run-1/solution'',
        compileCommand = Some (js ''g++ -std=c++17 -O2 -Wall /tmp/run-1/solution.cpp -o /tmp/run-1/solution''),
        runCommand = js ''/tmp/run-1/solution''\<rparr>"
      "js ''g++ -std=c++17 -O2 -Wall /tmp/run-1/solution.cpp -o /tmp/run-1/solution''"
      "[]" "js ''warning: unused variable''" 300 host0 "js ''s1''" "[case_seven]" None None]
  by (simp add: warning_world_def echo_world_def host0_def prepareFiles_def write_source_def
      workDir_of_def path_join_def cleanup_def js_def)

section \<open>Runs without test cases\<close>

lemma run_tests_empty:
  "run_tests w wd files tlim mlim [] h =
     (Graded \<lparr>status = WrongAnswer, score = 0, maxScore = 0, timeTaken = 0, memoryUsed = 0,
        testCasesPassed = 0, totalTestCases = 0, testCaseResults = []\<rparr>, h)"
  by (simp add: run_tests_def resolve_status_def score_status_def)

lemma execute_try_empty_status:
  "result_status (fst (execute_try w h wd code language [] tlim mlim)) \<noteq> Accepted"
  by (simp add: execute_try_def Let_def run_tests_empty
      split: option.split sum.split compile_result.split)

text \<open>
  C6: a run with no test cases that reaches the test loop (the working directory and the
  source file were created, and the build, if the language has one, succeeded) returns
  the status wrong answer with score 0 and maximum score 0. Whatever the host does, a
  run with no test cases is never accepted.
\<close>

theorem C6_no_test_cases_is_wrong_answer:
  "(ensureDir_error w = None \<and> prepareFiles w (workDir_of w) code language = Inr files
      \<and> (compileCommand files = None
          \<or> (\<exists>cmd t. compileCommand files = Some cmd \<and> compile w cmd = CompileOk t))
     \<longrightarrow> fst (execute w h sid code language [] tlim mlim)
          = Graded \<lparr>status = WrongAnswer, score = 0, maxScore = 0, timeTaken = 0, memoryUsed = 0,
              testCasesPassed = 0, totalTestCases = 0, testCaseResults = []\<rparr>)
   \<and> result_status (fst (execute w h sid code language [] tlim mlim)) \<noteq> Accepted"
proof (intro conjI impI)
  assume a: "ensureDir_error w = None \<and> prepareFiles w (workDir_of w) code language = Inr files
      \<and> (compileCommand files = None
          \<or> (\<exists>cmd t. compileCommand files = Some cmd \<and> compile w cmd = CompileOk t))"
  then have "fst (execute_try w h (workDir_of w) code language [] tlim mlim)
      = Graded \<lparr>status = WrongAnswer, score = 0, maxScore = 0, timeTaken = 0, memoryUsed = 0,
          testCasesPassed = 0, totalTestCases = 0, testCaseResults = []\<rparr>"
    by (auto simp: execute_try_def run_tests_empty)
  then show "fst (execute w h sid code language [] tlim mlim)
      = Graded \<lparr>status = WrongAnswer, score = 0, maxScore = 0, timeTaken = 0, memoryUsed = 0,
          testCasesPassed = 0, totalTestCases = 0, testCaseResults = []\<rparr>"
    by (simp add: execute_fst)
next
  show "result_status (fst (execute w h sid code language [] tlim mlim)) \<noteq> Accepted"
    by (simp add: execute_fst execute_try_empty_status)
qed

theorem C6_no_test_cases_is_wrong_answer_witness:
  "fst (execute echo_world host0 (js ''s1'') (js ''int main() { return 0; }'') (js ''cpp'') [] None None)
     = Graded \<lparr>status = WrongAnswer, score = 0, maxScore = 0, timeTaken = 0, memoryUsed = 0,
         testCasesPassed = 0, totalTestCases = 0, testCaseResults = []\<rparr>
   \<and> result_status (fst (execute echo_world host0 (js ''s1'') (js ''int main() { return 0; }'')
         (js ''cpp'') [] None None)) \<noteq> Accepted"
  using C6_no_test_cases_is_wrong_answer [of echo_world "js ''int main() { return 0; }''" "js ''cpp''"
      "\<lparr>sourceFile = js ''/tmp/run-1/solution.cpp'', executableFile = js ''/tmp/run-1/solution'',
        compileCommand = Some (js ''g++ -std=c++17 -O2 -Wall /tmp/run-1/solution.cpp -o /tmp/run-1/solution''),
        runCommand = js ''/tmp/run-1/solution''\<rparr>"
      host0 "js ''s1''" None None]
  by (simp add: echo_world_def host0_def prepareFiles_def write_source_def
      workDir_of_def path_join_def compile_def truthy_def js_def)

section \<open>Scoring\<close>

lemma points_or_10_zero: "tc_points tc = Some 0 \<Longrightarrow> points_or_10 tc = 10"
  by (simp add: points_or_10_def num_or_def)

lemma record_result_points:
  "points_or_10 tc = points_or_10 tc' \<Longrightarrow> tc_id tc = tc_id tc' \<Longrightarrow> tc_input tc = tc_input tc'
    \<Longrightarrow> tc_output tc = tc_output tc' \<Longrightarrow> record_result st i tc r = record_result st i tc' r"
  by (simp add: record_result_def)

lemma run_loop_points:
  assumes "points_or_10 tc = points_or_10 tc'" "tc_id tc = tc_id tc'" "tc_input tc = tc_input tc'"
    "tc_output tc = tc_output tc'"
  shows "run_loop w wd files tlim mlim i (pre @ tc # post) st h
     = run_loop w wd files tlim mlim i (pre @ tc' # post) st h"
proof (induction pre arbitrary: i st h)
  case Nil
  show ?case
    using assms by (simp add: record_result_points [OF assms] split: prod.split)
next
  case (Cons a pre)
  then show ?case by (simp split: prod.split)
qed

lemma execute_points:
  assumes "points_or_10 tc = points_or_10 tc'" "tc_id tc = tc_id tc'" "tc_input tc = tc_input tc'"
    "tc_output tc = tc_output tc'"
  shows "execute w h sid code language (pre @ tc # post) tlim mlim
     = execute w h sid code language (pre @ tc' # post) tlim mlim"
proof -
  have rt: "run_tests w wd files a b (pre @ tc # post) h' = run_tests w wd files a b (pre @ tc' # post) h'"
    for wd files a b h'
    by (simp add: run_tests_def run_loop_points [OF assms])
  have "execute_try w h wd code language (pre @ tc # post) tlim mlim
      = execute_try w h wd code language (pre @ tc' # post) tlim mlim" for wd
    by (simp add: execute_try_def Let_def rt split: option.split sum.split compile_result.split)
  then show ?thesis by (simp add: execute_def)
qed

text \<open>
  C9: a test case whose point value is exactly 0 is scored as a case worth 10 points:
  the point lookup gives what it gives for a case with no point value. The loop adds 10
  to the maximum score and, when the case passes, 10 to the total
  score; and the whole result of \<open>execute\<close> is the one the same test list gives with
  that case's point value set to 10.
\<close>

theorem C9_zero_points_scored_as_ten:
  assumes "tc_points tc = Some 0"
  shows "points_or_10 tc = points_or_10 (tc\<lparr>tc_points := None\<rparr>)
    \<and> maxScore_acc (record_result st i tc r) = maxScore_acc st + 10
    \<and> totalScore (record_result st i tc r) = totalScore st + (if rr_passed r then 10 else 0)
    \<and> execute w h sid code language (pre @ tc # post) tlim mlim
        = execute w h sid code language (pre @ tc\<lparr>tc_points := Some 10\<rparr> # post) tlim mlim"
proof -
  have p: "points_or_10 tc = points_or_10 (tc\<lparr>tc_points := Some 10\<rparr>)"
    using assms by (simp add: points_or_10_def num_or_def)
  have "execute w h sid code language (pre @ tc # post) tlim mlim
      = execute w h sid code language (pre @ tc\<lparr>tc_points := Some 10\<rparr> # post) tlim mlim"
    by (rule execute_points [OF p]) simp_all
  moreover have "points_or_10 tc = points_or_10 (tc\<lparr>tc_points := None\<rparr>)"
    using assms by (simp add: points_or_10_def num_or_def)
  ultimately show ?thesis
    using assms by (simp add: record_result_def points_or_10_zero)
qed

theorem C9_zero_points_scored_as_ten_witness:
  "tc_points case_zero = Some 0
   \<and> maxScore_acc (record_result
         \<lparr>results = [], totalScore = 0, maxScore_acc = 0, totalTime = 0, maxMemory = 0\<rparr> 0 case_zero
         \<lparr>rr_passed = True, rr_time = 12, rr_memory = 0, rr_output = [], rr_error = []\<rparr>) = 10
   \<and> totalScore (record_result
         \<lparr>results = [], totalScore = 0, maxScore_acc = 0, totalTime = 0, maxMemory = 0\<rparr> 0 case_zero
         \<lparr>rr_passed = True, rr_time = 12, rr_memory = 0, rr_output = [], rr_error = []\<rparr>) = 10
   \<and> execute silent_world host0 (js ''s1'') (js ''pass'') (js ''python'') [case_seven, case_zero] None None
     = execute silent_world host0 (js ''s1'') (js ''pass'') (js ''python'')
         [case_seven, case_zero\<lparr>tc_points := Some 10\<rparr>] None None
   \<and> fst (execute silent_world host0 (js ''s1'') (js ''pass'') (js ''python'')
         [case_seven, case_zero] None None)
     = Graded \<lparr>status = Accepted, score = 20, maxScore = 20, timeTaken = 12, memoryUsed = 0,
         testCasesPassed = 2, totalTestCases = 2,
         testCaseResults =
           [\<lparr>cr_testCaseId = Inl (js ''t7''), cr_passed = True, cr_timeTaken = 12,
             cr_memoryUsed = 0, cr_input = js ''7'', cr_expectedOutput = js ''7'',
             cr_actualOutput = [], cr_error = [], cr_score = 10\<rparr>,
            \<lparr>cr_testCaseId = Inr 1, cr_passed = True, cr_timeTaken = 12,
             cr_memoryUsed = 0, cr_input = js ''0'', cr_expectedOutput = [],
             cr_actualOutput = [], cr_error = [], cr_score = 10\<rparr>]\<rparr>"
  using C9_zero_points_scored_as_ten [of case_zero
      "\<lparr>results = [], totalScore = 0, maxScore_acc = 0, totalTime = 0, maxMemory = 0\<rparr>" 0
      "\<lparr>rr_passed = True, rr_time = 12, rr_memory = 0, rr_output = [], rr_error = []\<rparr>"
      silent_world host0 "js ''s1''" "js ''pass''" "js ''python''" "[case_seven]" "[]" None None]
  by (simp add: run_defs norm_defs silent_world_def echo_world_def host0_def case_seven_def
      case_zero_def js_def)

section \<open>Resolution of the overall status\<close>

lemma execute_graded_status:
  assumes "fst (execute w h sid code language tcs tlim mlim) = Graded g"
  shows "status g = resolve_status (score g) (maxScore g) (testCaseResults g)"
proof -
  have rt: "fst (run_tests w wd files a b tcs h') = Graded g'
      \<Longrightarrow> status g' = resolve_status (score g') (maxScore g') (testCaseResults g')"
    for wd files a b h' g'
    by (auto simp: run_tests_def split: prod.splits)
  from assms have "fst (execute_try w h (workDir_of w) code language tcs tlim mlim) = Graded g"
    by (simp add: execute_fst)
  then show ?thesis
    by (auto simp: execute_try_def Let_def rt
        split: option.splits sum.splits compile_result.splits)
qed

lemma error_class_range:
  "error_class r = None \<or> error_class r = Some TimeLimitExceeded
   \<or> error_class r = Some MemoryLimitExceeded \<or> error_class r = Some RuntimeError"
  by (simp add: error_class_def)

text \<open>
  A case whose command was killed by SIGTERM or SIGKILL is recorded with the error text
  \<^verbatim>\<open>Time limit exceeded\<close>, which the scan classifies as a time-out.
\<close>

lemma killed_run_error_class:
  assumes "err_signal e = Some (js ''SIGTERM'') \<or> err_signal e = Some (js ''SIGKILL'')"
    and "cr_error r = rr_error (failed_run tlim e)"
  shows "error_class r = Some TimeLimitExceeded"
  using assms by (auto simp: failed_run_def error_message_def error_class_def truthy_def js_def)

lemma scan_errors_timeout_first:
  "k < length rs \<Longrightarrow> error_class (rs ! k) = Some TimeLimitExceeded
    \<Longrightarrow> \<forall>j<k. error_class (rs ! j) \<noteq> Some MemoryLimitExceeded
          \<and> error_class (rs ! j) \<noteq> Some RuntimeError
    \<Longrightarrow> scan_errors st rs = TimeLimitExceeded"
proof (induction rs arbitrary: k)
  case Nil
  then show ?case by simp
next
  case (Cons r rs)
  show ?case
  proof (cases k)
    case 0
    with Cons.prems show ?thesis by simp
  next
    case (Suc k')
    with Cons.prems have r: "error_class r \<noteq> Some MemoryLimitExceeded"
        "error_class r \<noteq> Some RuntimeError"
      by auto
    show ?thesis
    proof (cases "error_class r")
      case None
      have "scan_errors st rs = TimeLimitExceeded"
      proof (rule Cons.IH [of k'])
        show "k' < length rs" using Cons.prems(1) Suc by simp
        show "error_class (rs ! k') = Some TimeLimitExceeded" using Cons.prems(2) Suc by simp
        show "\<forall>j<k'. error_class (rs ! j) \<noteq> Some MemoryLimitExceeded
            \<and> error_class (rs ! j) \<noteq> Some RuntimeError"
        proof (intro allI impI)
          fix j assume "j < k'"
          then have "Suc j < k" using Suc by simp
          with Cons.prems(3) show "error_class (rs ! j) \<noteq> Some MemoryLimitExceeded
              \<and> error_class (rs ! j) \<noteq> Some RuntimeError"
            by fastforce
        qed
      qed
      with None show ?thesis by simp
    next
      case (Some c)
      with r error_class_range [of r] show ?thesis by auto
    qed
  qed
qed

text \<open>
  C2, amended: the scan stops at the first result, in list order, whose error text
  carries one of the three markers. So when the results of a run hold a case classified
  as timed out and no earlier case is classified as a memory or runtime failure, the
  overall status is time limit exceeded, however many other cases passed. (A result
  list is present only when the build did not fail.)
\<close>

theorem C2_timeout_before_other_failures:
  assumes "k < length (result_cases (fst (execute w h sid code language tcs tlim mlim)))"
    and "error_class (result_cases (fst (execute w h sid code language tcs tlim mlim)) ! k)
        = Some TimeLimitExceeded"
    and "\<forall>j<k. error_class (result_cases (fst (execute w h sid code language tcs tlim mlim)) ! j)
            \<noteq> Some MemoryLimitExceeded
        \<and> error_class (result_cases (fst (execute w h sid code language tcs tlim mlim)) ! j)
            \<noteq> Some RuntimeError"
  shows "result_status (fst (execute w h sid code language tcs tlim mlim)) = TimeLimitExceeded"
proof (cases "fst (execute w h sid code language tcs tlim mlim)")
  case (Graded g)
  then have "status g = scan_errors (score_status (score g) (maxScore g)) (testCaseResults g)"
    using execute_graded_status [of w h sid code language tcs tlim mlim g]
    by (simp add: resolve_status_def)
  also have "\<dots> = TimeLimitExceeded"
    using assms Graded by (intro scan_errors_timeout_first [of k]) simp_all
  finally show ?thesis using Graded by simp
next
  case (Failed st msg t)
  with assms(1) show ?thesis by simp
qed

theorem C2_timeout_before_other_failures_witness:
  "map error_class (result_cases (fst (execute mixed_world host0 (js ''s1'') (js ''x'') (js ''python'')
        [case_seven, case_loop, case_crash] None None)))
     = [None, Some TimeLimitExceeded, Some RuntimeError]
   \<and> result_status (fst (execute mixed_world host0 (js ''s1'') (js ''x'') (js ''python'')
        [case_seven, case_loop, case_crash] None None)) = TimeLimitExceeded"
proof -
  have r: "result_cases (fst (execute mixed_world host0 (js ''s1'') (js ''x'') (js ''python'')
        [case_seven, case_loop, case_crash] None None))
      = [passed_result, timeout_result, crash_result]"
    by (simp add: run_defs norm_defs mixed_world_def echo_world_def host0_def case_seven_def
        case_loop_def case_crash_def timeout_error_def crash_error_def
        passed_result_def timeout_result_def crash_result_def js_def)
  have c: "map error_class [passed_result, timeout_result, crash_result]
      = [None, Some TimeLimitExceeded, Some RuntimeError]"
    by (simp add: error_class_def truthy_def passed_result_def timeout_result_def
        crash_result_def js_def)
  have "result_status (fst (execute mixed_world host0 (js ''s1'') (js ''x'') (js ''python'')
        [case_seven, case_loop, case_crash] None None)) = TimeLimitExceeded"
    using c by (intro C2_timeout_before_other_failures [of 1]) (simp_all add: r)
  with r c show ?thesis by simp
qed

text \<open>
  C2, as stated: a timed-out case anywhere in the results makes the overall status time
  limit exceeded. With a crash in the first case and a time-out in the second, the scan
  stops at the crash and the status is runtime error.
\<close>

theorem C2_earlier_crash_counterexample:
  "map cr_error (result_cases (fst (execute mixed_world host0 (js ''s1'') (js ''x'') (js ''python'')
        [case_crash, case_loop] None None)))
     = [js ''Runtime error: Segmentation fault'', js ''Time limit exceeded'']
   \<and> result_status (fst (execute mixed_world host0 (js ''s1'') (js ''x'') (js ''python'')
        [case_crash, case_loop] None None)) = RuntimeError"
  by (simp add: run_defs mixed_world_def echo_world_def host0_def
      case_loop_def case_crash_def timeout_error_def crash_error_def js_def)






end
